theory Spec2Isabelle
  imports Main "HOL-Library.Word"
begin

section \<open>Data model of pkg/raftstore/store\_check.go\<close>

text \<open>
  The file under verification holds three methods of \<^verbatim>\<open>*Store\<close>:
  \<^verbatim>\<open>isRaftMsgValid\<close>, \<^verbatim>\<open>isMsgStale\<close> and \<^verbatim>\<open>checkSnapshot\<close>
  (and \<^verbatim>\<open>inPending\<close>). The protobuf message types, the replica handle and
  the helpers they call live in other files; their shape is taken from the way the
  source uses them (field names, value or pointer, \<^verbatim>\<open>uint64\<close> identifiers).
\<close>

type_synonym uint64 = "64 word"
type_synonym byte = "8 word"
type_synonym bytes = "byte list"

text \<open>Modelled from the spec: the declaration of \<^verbatim>\<open>metapb.Peer\<close> is missing.
  Section 3: a peer has the attributes \<open>{peerID, storeID}\<close>; the source reads
  them as \<^verbatim>\<open>p.ID\<close> and \<^verbatim>\<open>msg.ToPeer.StoreID\<close>.\<close>

record Peer =
  peer_ID :: uint64
  peer_StoreID :: uint64

text \<open>Modelled from the spec: the declaration of \<^verbatim>\<open>metapb.CellEpoch\<close> is
  missing. Section 3: an epoch is the pair \<open>(configVersion, version)\<close>; the source
  reads the first as \<^verbatim>\<open>fromEpoch.ConfVer\<close>.\<close>

record CellEpoch =
  ConfVer :: uint64
  CellVer :: uint64

text \<open>Modelled from the spec: the declaration of \<^verbatim>\<open>metapb.Cell\<close> is missing.
  Section 3: a shard has \<open>{shardID, startKey, endKey, epoch, peers}\<close>; the source
  reads them as \<^verbatim>\<open>ID\<close>, \<^verbatim>\<open>Start\<close>, \<^verbatim>\<open>End\<close>, \<^verbatim>\<open>Epoch\<close> and
  \<^verbatim>\<open>Peers\<close>.\<close>

record Cell =
  cell_ID :: uint64
  cell_Start :: bytes
  cell_End :: bytes
  cell_Epoch :: CellEpoch
  cell_Peers :: "Peer list"

text \<open>\<^verbatim>\<open>raftpb.MessageType\<close>, \<^verbatim>\<open>raftpb.Snapshot\<close> and
  \<^verbatim>\<open>raftpb.Message\<close> of the consensus library, as far as the source reads
  them: it tests the type for \<^verbatim>\<open>MsgVote\<close> and takes the snapshot's
  \<^verbatim>\<open>Data\<close>.\<close>

datatype MessageType =
    MsgHup | MsgBeat | MsgProp | MsgApp | MsgAppResp | MsgVote | MsgVoteResp
  | MsgSnap | MsgHeartbeat | MsgHeartbeatResp | MsgUnreachable | MsgSnapStatus
  | MsgCheckQuorum | MsgTransferLeader | MsgTimeoutNow | MsgReadIndex
  | MsgReadIndexResp | MsgPreVote | MsgPreVoteResp

record Snapshot =
  snap_Data :: bytes

record Message =
  msg_Type :: MessageType
  msg_Snapshot :: Snapshot

text \<open>Modelled from the spec: the declaration of \<^verbatim>\<open>mraft.RaftMessage\<close> is
  missing. Section 3: the envelope is \<open>{shardID, fromPeer, toPeer, shardEpoch,
  innerMessage}\<close>. The source reads its peers, epoch and inner message without a
  nil test, so they are values here.\<close>

record RaftMessage =
  rm_CellID :: uint64
  rm_FromPeer :: Peer
  rm_ToPeer :: Peer
  rm_CellEpoch :: CellEpoch
  rm_Message :: Message

text \<open>Modelled from the spec: the declarations of \<^verbatim>\<open>mraft.PeerState\<close> and
  \<^verbatim>\<open>mraft.CellLocalState\<close> are missing. Section 3 gives the persisted record
  as one of Normal or Tombstone, carrying the shard (epoch and membership).\<close>

datatype PeerState = Normal | Tombstone

record CellLocalState =
  ls_State :: PeerState
  ls_Cell :: Cell

text \<open>Modelled from the spec: the declaration of \<^verbatim>\<open>mraft.RaftSnapshotData\<close>
  is missing. Section 3: the payload decodes to a descriptor \<open>{shard, ...}\<close>.\<close>

record RaftSnapshotData =
  sd_Cell :: Cell

text \<open>Errors returned as the second result of the Go functions. The two
  \<^verbatim>\<open>fmt.Errorf\<close> sites of the source carry their arguments; an error handed up
  from a collaborator (the state load, \<^verbatim>\<open>Unmarshal\<close>) is opaque.\<close>

datatype go_error =
    ErrNotTombstone uint64 CellLocalState
  | ErrInvalidTombstoneMsg CellEpoch RaftMessage
  | ErrCollaborator string

text \<open>A run-time panic: the call does not return to its caller.\<close>

datatype go_panic = NilPointerDereference

text \<open>Modelled from the spec: the declarations of the replica handle
  \<^verbatim>\<open>*PeerReplicate\<close> and of its storage \<^verbatim>\<open>*peerStorage\<close> are missing. The
  handle has the storage as its field \<^verbatim>\<open>ps\<close> (read at line 76); the storage
  holds the replica's current shard descriptor (section 6, \<open>getLiveReplica\<close>) and
  whether it "is already initialized (has prior state)" (section 4.3).\<close>

record peerStorage =
  ps_cell :: Cell
  ps_initialized :: bool

record PeerReplicate =
  ps :: peerStorage

text \<open>One call of the stale-message disposition, as the transport sees it.\<close>

record StaleNotice =
  sn_msg :: RaftMessage
  sn_epoch :: CellEpoch
  sn_needGC :: bool

text \<open>Modelled from the spec: the declaration of \<^verbatim>\<open>Store\<close>, the node, is
  missing. The source reads its fields \<^verbatim>\<open>id\<close>, \<^verbatim>\<open>keyRanges\<close> (the entries of
  the Key-Range Index) and \<^verbatim>\<open>pendingCells\<close> (the slice of pending shards). The
  collaborators of section 6 are state of the node as well: \<open>replicates\<close> is the
  live-replica registry (a nil handle is \<open>None\<close>), \<open>engine\<close> what a load of the
  persisted local state of a shard gives, \<open>staleNotices\<close> the dispositions handed
  to the transport so far.\<close>

record Store =
  store_id :: uint64
  replicates :: "uint64 \<Rightarrow> PeerReplicate option"
  keyRanges :: "Cell list"
  pendingCells :: "Cell list"
  engine :: "uint64 \<Rightarrow> go_error + CellLocalState option"
  staleNotices :: "StaleNotice list"

text \<open>What a call leaves behind: it returns its Go results, or it panics.\<close>

type_synonym 'a outcome = "go_panic + 'a"

section \<open>Helpers the source calls\<close>

text \<open>\<^verbatim>\<open>bytes.Compare\<close> of the Go library: lexicographic, with results
  \<open>-1\<close>, \<open>0\<close>, \<open>1\<close>.\<close>

fun bytes_Compare :: "bytes \<Rightarrow> bytes \<Rightarrow> int" where
  "bytes_Compare [] [] = 0"
| "bytes_Compare [] (y # ys) = - 1"
| "bytes_Compare (x # xs) [] = 1"
| "bytes_Compare (x # xs) (y # ys) =
     (if x < y then - 1 else if y < x then 1 else bytes_Compare xs ys)"

text \<open>Modelled from the spec: \<^verbatim>\<open>encStartKey\<close> and \<^verbatim>\<open>encEndKey\<close> are missing.
  Section 4.3 fixes what the encoding must achieve: "treating an empty end key as
  unbounded". An encoded key is therefore a data key or the key above all data
  keys, and \<^verbatim>\<open>bytes.Compare\<close> on encoded keys is \<open>enc_Compare\<close>.\<close>

datatype enckey = DataKey bytes | DataMaxKey

fun enc_Compare :: "enckey \<Rightarrow> enckey \<Rightarrow> int" where
  "enc_Compare (DataKey a) (DataKey b) = bytes_Compare a b"
| "enc_Compare (DataKey a) DataMaxKey = - 1"
| "enc_Compare DataMaxKey (DataKey b) = 1"
| "enc_Compare DataMaxKey DataMaxKey = 0"

definition encStartKey :: "Cell \<Rightarrow> enckey" where
  "encStartKey c = DataKey (cell_Start c)"

definition encEndKey :: "Cell \<Rightarrow> enckey" where
  "encEndKey c = (if cell_End c = [] then DataMaxKey else DataKey (cell_End c))"

text \<open>Modelled from the spec: \<^verbatim>\<open>isEpochStale\<close> is missing. Section 3:
  "\<open>(c1,v1) < (c2,v2)\<close> iff \<open>c1 < c2\<close>, or \<open>c1 == c2\<close> and \<open>v1 < v2\<close>. An epoch is
  stale relative to another if it is strictly less."\<close>

definition isEpochStale :: "CellEpoch \<Rightarrow> CellEpoch \<Rightarrow> bool" where
  "isEpochStale epoch checkEpoch =
     (ConfVer epoch < ConfVer checkEpoch
      \<or> (ConfVer epoch = ConfVer checkEpoch \<and> CellVer epoch < CellVer checkEpoch))"

text \<open>Modelled from the spec: \<^verbatim>\<open>findPeer\<close> is missing. The source hands it a
  shard and the sender's store id and tests the result against nil; section 4.1
  reads that as "the sender peer still appears in the membership".\<close>

definition findPeer :: "Cell \<Rightarrow> uint64 \<Rightarrow> Peer option" where
  "findPeer c storeID = find (\<lambda>p. peer_StoreID p = storeID) (cell_Peers c)"

text \<open>Modelled from the spec: \<^verbatim>\<open>getPeerReplicate\<close> is missing. Section 6:
  \<open>getLiveReplica(shardID) -> Shard | none\<close>; the source tests the result against
  nil.\<close>

definition getPeerReplicate :: "Store \<Rightarrow> uint64 \<Rightarrow> PeerReplicate option" where
  "getPeerReplicate s cellID = replicates s cellID"

text \<open>The field read \<^verbatim>\<open>peers.ps\<close> through a handle that may be nil.\<close>

fun field_ps :: "PeerReplicate option \<Rightarrow> peerStorage outcome" where
  "field_ps None = Inl NilPointerDereference"
| "field_ps (Some pr) = Inr (ps pr)"

text \<open>Modelled from the spec: the accessors \<^verbatim>\<open>getStore\<close>, \<^verbatim>\<open>getCell\<close> and
  \<^verbatim>\<open>isInitialized\<close> are missing. They give the storage of the replica behind the
  handle, its current shard descriptor and whether the storage has prior state; a
  nil handle has no storage to give.\<close>

definition getStore :: "PeerReplicate option \<Rightarrow> peerStorage outcome" where
  "getStore pr = field_ps pr"

definition isInitialized :: "peerStorage \<Rightarrow> bool" where
  "isInitialized st = ps_initialized st"

definition getCell :: "PeerReplicate option \<Rightarrow> Cell outcome" where
  "getCell pr = (case getStore pr of Inl p \<Rightarrow> Inl p | Inr st \<Rightarrow> Inr (ps_cell st))"

text \<open>Modelled from the spec: \<^verbatim>\<open>loadCellLocalState\<close> is missing. Section 6:
  \<open>loadLocalShardState(shardID) -> LocalShardState | none\<close>, "fails with an I/O
  error kind on storage failure". The method belongs to the storage of a replica
  and loads the record of that replica's shard.\<close>

definition loadCellLocalState ::
  "peerStorage \<Rightarrow> Store \<Rightarrow> go_error + CellLocalState option" where
  "loadCellLocalState st s = engine s (cell_ID (ps_cell st))"

text \<open>Modelled from the spec: \<^verbatim>\<open>handleStaleMsg\<close> is missing. Sections 4.2 and 6:
  the disposition "only decides whether to notify"; its one effect is the
  fire-and-forget signal \<open>notifySenderStale(peer, epoch, forceGC)\<close> to the
  transport. The model records the call with its flag.\<close>

definition handleStaleMsg :: "Store \<Rightarrow> RaftMessage \<Rightarrow> CellEpoch \<Rightarrow> bool \<Rightarrow> Store" where
  "handleStaleMsg s msg currEpoch needGC =
     s\<lparr>staleNotices := staleNotices s @ [\<lparr>sn_msg = msg, sn_epoch = currEpoch, sn_needGC = needGC\<rparr>]\<rparr>"

text \<open>Modelled from the spec: \<^verbatim>\<open>keyRanges.Search\<close> is missing. Section 4.4:
  "\<open>search(key)\<close> -> shard descriptor of the live shard whose start key is the
  greatest start key \<open>\<le> key\<close>, or empty/sentinel if none". The sentinel is the
  zero descriptor, which the source recognises by \<^verbatim>\<open>item.ID > 0\<close> failing.\<close>

definition emptyCell :: Cell where
  "emptyCell = \<lparr>cell_ID = 0, cell_Start = [], cell_End = [],
                 cell_Epoch = \<lparr>ConfVer = 0, CellVer = 0\<rparr>, cell_Peers = []\<rparr>"

fun greatestStartLE :: "Cell list \<Rightarrow> bytes \<Rightarrow> Cell option" where
  "greatestStartLE [] key = None"
| "greatestStartLE (c # cs) key =
     (if bytes_Compare (cell_Start c) key \<le> 0 then
        (case greatestStartLE cs key of
           None \<Rightarrow> Some c
         | Some r \<Rightarrow> if bytes_Compare (cell_Start r) (cell_Start c) < 0 then Some c else Some r)
      else greatestStartLE cs key)"

definition Search :: "Cell list \<Rightarrow> bytes \<Rightarrow> Cell" where
  "Search index key = (case greatestStartLE index key of None \<Rightarrow> emptyCell | Some c \<Rightarrow> c)"

section \<open>The three checks\<close>

subsection \<open>isRaftMsgValid (lines 26-36)\<close>

text \<open>The method has the store as pointer receiver; the model hands the store
  back to show what the call leaves of it.\<close>

definition isRaftMsgValid :: "Store \<Rightarrow> RaftMessage \<Rightarrow> bool \<times> Store" where
  "isRaftMsgValid s msg =
     (if peer_StoreID (rm_ToPeer msg) \<noteq> store_id s then (False, s) else (True, s))"

subsection \<open>isMsgStale (lines 38-113)\<close>

text \<open>Lines 77-112: what the source does with the two results of the load once
  they are there.\<close>

definition isMsgStale_loaded ::
  "Store \<Rightarrow> RaftMessage \<Rightarrow> go_error + CellLocalState option
     \<Rightarrow> (bool \<times> go_error option) outcome \<times> Store" where
  "isMsgStale_loaded s msg loaded =
     (let cellID = rm_CellID msg;
          fromEpoch = rm_CellEpoch msg;
          isVoteMsg = (msg_Type (rm_Message msg) = MsgVote);
          fromStoreID = peer_StoreID (rm_FromPeer msg)
      in case loaded of
           Inl err \<Rightarrow> (Inr (False, Some err), s)
         | Inr None \<Rightarrow> (Inr (False, None), s)
         | Inr (Some localState) \<Rightarrow>
             if ls_State localState \<noteq> Tombstone then
               (Inr (False, Some (ErrNotTombstone cellID localState)), s)
             else
               let cellEpoch = cell_Epoch (ls_Cell localState) in
               if isEpochStale fromEpoch cellEpoch then
                 let notExist = (findPeer (ls_Cell localState) fromStoreID = None)
                 in (Inr (True, None), handleStaleMsg s msg cellEpoch (isVoteMsg \<and> notExist))
               else if ConfVer fromEpoch = ConfVer cellEpoch then
                 (Inr (False, Some (ErrInvalidTombstoneMsg cellEpoch msg)), s)
               else (Inr (False, None), s))"

text \<open>The whole method. In the branch without a live replica the source reads
  the storage through the handle it has just found to be nil (line 76).\<close>

definition isMsgStale ::
  "Store \<Rightarrow> RaftMessage \<Rightarrow> (bool \<times> go_error option) outcome \<times> Store" where
  "isMsgStale s msg =
     (let cellID = rm_CellID msg;
          fromEpoch = rm_CellEpoch msg;
          isVoteMsg = (msg_Type (rm_Message msg) = MsgVote);
          fromStoreID = peer_StoreID (rm_FromPeer msg);
          peers = getPeerReplicate s cellID
      in case peers of
           Some pr \<Rightarrow>
             (case getCell peers of
                Inl p \<Rightarrow> (Inl p, s)
              | Inr c \<Rightarrow>
                  let epoch = cell_Epoch c
                  in if isEpochStale fromEpoch epoch \<and> findPeer c fromStoreID \<noteq> None then
                       (Inr (True, None), handleStaleMsg s msg epoch isVoteMsg)
                     else (Inr (False, None), s))
         | None \<Rightarrow>
             (case field_ps peers of
                Inl p \<Rightarrow> (Inl p, s)
              | Inr st \<Rightarrow> isMsgStale_loaded s msg (loadCellLocalState st s)))"

subsection \<open>checkSnapshot (lines 115-175)\<close>

text \<open>Lines 133-139: the loop that looks for the target peer id in the
  descriptor's membership.\<close>

fun found_peer :: "Peer list \<Rightarrow> uint64 \<Rightarrow> bool" where
  "found_peer [] peerID = False"
| "found_peer (p # rest) peerID =
     (if peer_ID p = peerID then True else found_peer rest peerID)"

text \<open>Lines 150-159: the test against the live shards. The result says whether
  the source takes the "cell overlapped" exit.\<close>

definition live_overlapped :: "Store \<Rightarrow> Cell \<Rightarrow> bool outcome" where
  "live_overlapped s snapCell =
     (let item = Search (keyRanges s) (cell_Start snapCell)
      in if cell_ID item > 0 then
           (case getCell (getPeerReplicate s (cell_ID item)) of
              Inl p \<Rightarrow> Inl p
            | Inr exist \<Rightarrow>
                Inr (enc_Compare (encStartKey exist) (encEndKey snapCell) < 0))
         else Inr False)"

text \<open>Lines 161-171: the loop over the pending shards. The result says whether
  the source takes the "pending cell overlapped" exit.\<close>

fun pending_overlapped :: "Cell list \<Rightarrow> Cell \<Rightarrow> bool" where
  "pending_overlapped [] snapCell = False"
| "pending_overlapped (c # rest) snapCell =
     (if enc_Compare (encStartKey c) (encEndKey snapCell) < 0
         \<and> enc_Compare (encEndKey c) (encStartKey snapCell) > 0
         \<and> cell_ID c \<noteq> cell_ID snapCell
      then True
      else pending_overlapped rest snapCell)"

text \<open>The whole method. \<^verbatim>\<open>Unmarshal\<close> is the decoder of the payload, generated
  code outside the file: it is a parameter of the model.\<close>

definition checkSnapshot ::
  "(bytes \<Rightarrow> go_error + RaftSnapshotData) \<Rightarrow> Store \<Rightarrow> RaftMessage
     \<Rightarrow> (bool \<times> go_error option) outcome \<times> Store" where
  "checkSnapshot Unmarshal s msg =
     (let pr = getPeerReplicate s (rm_CellID msg)
      in case getStore pr of
           Inl p \<Rightarrow> (Inl p, s)
         | Inr st \<Rightarrow>
             if isInitialized st \<or> int (length (snap_Data (msg_Snapshot (rm_Message msg)))) \<le> 0
             then (Inr (True, None), s)
             else
               let snap = msg_Snapshot (rm_Message msg)
               in case Unmarshal (snap_Data snap) of
                    Inl err \<Rightarrow> (Inr (False, Some err), s)
                  | Inr snapData \<Rightarrow>
                      let snapCell = sd_Cell snapData;
                          peerID = peer_ID (rm_ToPeer msg);
                          found = found_peer (cell_Peers snapCell) peerID
                      in if \<not> found then (Inr (False, None), s)
                         else
                           (case live_overlapped s snapCell of
                              Inl p \<Rightarrow> (Inl p, s)
                            | Inr True \<Rightarrow> (Inr (False, None), s)
                            | Inr False \<Rightarrow>
                                if pending_overlapped (pendingCells s) snapCell
                                then (Inr (False, None), s)
                                else (Inr (True, None),
                                      s\<lparr>pendingCells := pendingCells s @ [snapCell]\<rparr>)))"

subsection \<open>inPending (lines 177-185)\<close>

fun inPending_loop :: "Cell list \<Rightarrow> Cell \<Rightarrow> bool" where
  "inPending_loop [] cell = False"
| "inPending_loop (c # rest) cell =
     (if cell_ID c = cell_ID cell then True else inPending_loop rest cell)"

definition inPending :: "Store \<Rightarrow> Cell \<Rightarrow> bool" where
  "inPending s cell = inPending_loop (pendingCells s) cell"

section \<open>The interval test of the specification\<close>

text \<open>Section 4.3 of the specification, in its words: ranges \<open>[s1,e1)\<close> and
  \<open>[s2,e2)\<close> "intersect iff \<open>s1 < e2\<close> and \<open>s2 < e1\<close>, treating an empty end
  key as unbounded".\<close>

definition spec_intersects :: "Cell \<Rightarrow> Cell \<Rightarrow> bool" where
  "spec_intersects c1 c2 =
     (enc_Compare (encStartKey c1) (encEndKey c2) < 0
      \<and> enc_Compare (encStartKey c2) (encEndKey c1) < 0)"

section \<open>Example stores and messages\<close>

text \<open>Concrete inputs, used where a statement is evaluated.\<close>

definition peer1 :: Peer where "peer1 = \<lparr>peer_ID = 1, peer_StoreID = 1\<rparr>"
definition peer2 :: Peer where "peer2 = \<lparr>peer_ID = 2, peer_StoreID = 2\<rparr>"
definition peer3 :: Peer where "peer3 = \<lparr>peer_ID = 3, peer_StoreID = 3\<rparr>"

definition epoch_old :: CellEpoch where "epoch_old = \<lparr>ConfVer = 4, CellVer = 5\<rparr>"
definition epoch_cur :: CellEpoch where "epoch_cur = \<lparr>ConfVer = 5, CellVer = 5\<rparr>"

text \<open>Shard 7 over \<open>[10,20)\<close> with members 1 and 2.\<close>

definition cell7 :: Cell where
  "cell7 = \<lparr>cell_ID = 7, cell_Start = [10], cell_End = [20],
             cell_Epoch = epoch_cur, cell_Peers = [peer1, peer2]\<rparr>"

text \<open>A node (store 1) with no replica, no pending shard and no persisted
  record.\<close>

definition store_empty :: Store where
  "store_empty = \<lparr>store_id = 1, replicates = (\<lambda>_. None), keyRanges = [],
                    pendingCells = [], engine = (\<lambda>_. Inr None), staleNotices = []\<rparr>"


text \<open>Member 2 answers an append for shard 7 with the old epoch.\<close>

definition msg_appresp :: RaftMessage where
  "msg_appresp = \<lparr>rm_CellID = 7, rm_FromPeer = peer2, rm_ToPeer = peer1,
       rm_CellEpoch = epoch_old,
       rm_Message = \<lparr>msg_Type = MsgAppResp, msg_Snapshot = \<lparr>snap_Data = []\<rparr>\<rparr>\<rparr>"

text \<open>Member 2 asks for a vote in shard 7 with the old epoch.\<close>

definition msg_vote :: RaftMessage where
  "msg_vote = \<lparr>rm_CellID = 7, rm_FromPeer = peer2, rm_ToPeer = peer1,
       rm_CellEpoch = epoch_old,
       rm_Message = \<lparr>msg_Type = MsgVote, msg_Snapshot = \<lparr>snap_Data = []\<rparr>\<rparr>\<rparr>"

text \<open>Shard 7 as it was when its replica was destroyed: member 2 had been
  removed. The persisted records built on it: a tombstone, and a record that is
  not a tombstone. A node holding the one or the other for shard 7, with no live
  replica.\<close>

definition cell7_tomb :: Cell where
  "cell7_tomb = \<lparr>cell_ID = 7, cell_Start = [10], cell_End = [20],
                  cell_Epoch = epoch_cur, cell_Peers = [peer1, peer3]\<rparr>"

definition tomb7 :: CellLocalState where
  "tomb7 = \<lparr>ls_State = Tombstone, ls_Cell = cell7_tomb\<rparr>"

definition normal7 :: CellLocalState where
  "normal7 = \<lparr>ls_State = Normal, ls_Cell = cell7\<rparr>"

definition store_tomb7 :: Store where
  "store_tomb7 = store_empty\<lparr>engine := (\<lambda>i. if i = 7 then Inr (Some tomb7) else Inr None)\<rparr>"

definition store_normal7 :: Store where
  "store_normal7 = store_empty\<lparr>engine := (\<lambda>i. if i = 7 then Inr (Some normal7) else Inr None)\<rparr>"

text \<open>The local target peer: peer 3 on store 1.\<close>

definition peer_local :: Peer where "peer_local = \<lparr>peer_ID = 3, peer_StoreID = 1\<rparr>"

text \<open>Live shard 1 owns \<open>[15,25)\<close>.\<close>

definition cell_live :: Cell where
  "cell_live = \<lparr>cell_ID = 1, cell_Start = [15], cell_End = [25],
                 cell_Epoch = epoch_cur, cell_Peers = [peer1]\<rparr>"

text \<open>The incoming descriptor: shard 2 over \<open>[10,20)\<close>, with the local peer
  among its members; and an earlier descriptor of the same shard and range.\<close>

definition snap_cell :: Cell where
  "snap_cell = \<lparr>cell_ID = 2, cell_Start = [10], cell_End = [20],
                 cell_Epoch = epoch_cur, cell_Peers = [peer2, peer_local]\<rparr>"

definition snap_cell_prior :: Cell where
  "snap_cell_prior = \<lparr>cell_ID = 2, cell_Start = [10], cell_End = [20],
                 cell_Epoch = epoch_old, cell_Peers = [peer2, peer_local]\<rparr>"

text \<open>The replica of shard 2, created for the snapshot and not yet initialized;
  the initialized replica of shard 1.\<close>

definition replica_fresh :: PeerReplicate where
  "replica_fresh = \<lparr>ps = \<lparr>ps_cell = emptyCell\<lparr>cell_ID := 2\<rparr>, ps_initialized = False\<rparr>\<rparr>"

definition replica_live :: PeerReplicate where
  "replica_live = \<lparr>ps = \<lparr>ps_cell = cell_live, ps_initialized = True\<rparr>\<rparr>"

text \<open>A node with live shard 1 and the fresh replica of shard 2; a node with
  the fresh replica of shard 2 and the earlier descriptor pending.\<close>

definition store_snap :: Store where
  "store_snap = store_empty\<lparr>replicates :=
      (\<lambda>i. if i = 1 then Some replica_live else if i = 2 then Some replica_fresh else None),
      keyRanges := [cell_live]\<rparr>"

definition store_pending :: Store where
  "store_pending = store_empty\<lparr>replicates := (\<lambda>i. if i = 2 then Some replica_fresh else None),
      pendingCells := [snap_cell_prior]\<rparr>"

text \<open>The snapshot envelope for shard 2 and two decoders of its payload.\<close>

definition msg_snap :: RaftMessage where
  "msg_snap = \<lparr>rm_CellID = 2, rm_FromPeer = peer2, rm_ToPeer = peer_local,
       rm_CellEpoch = epoch_cur,
       rm_Message = \<lparr>msg_Type = MsgSnap, msg_Snapshot = \<lparr>snap_Data = [1]\<rparr>\<rparr>\<rparr>"

definition decode_ok :: "bytes \<Rightarrow> go_error + RaftSnapshotData" where
  "decode_ok data = Inr \<lparr>sd_Cell = snap_cell\<rparr>"

definition decode_fail :: "bytes \<Rightarrow> go_error + RaftSnapshotData" where
  "decode_fail data = Inl (ErrCollaborator ''unmarshal'')"





text \<open>A node with a live replica of shard 7 from which member 2 was removed
  (members 1 and 3).\<close>

definition replica_removed7 :: PeerReplicate where
  "replica_removed7 = \<lparr>ps = \<lparr>ps_cell = cell7_tomb, ps_initialized = True\<rparr>\<rparr>"

definition store_removed7 :: Store where
  "store_removed7 = store_empty\<lparr>replicates :=
      (\<lambda>i. if i = 7 then Some replica_removed7 else None),
      keyRanges := [cell7_tomb]\<rparr>"

text \<open>Member 2 asks for a vote in shard 7 with the current epoch.\<close>

definition msg_collide :: RaftMessage where
  "msg_collide = \<lparr>rm_CellID = 7, rm_FromPeer = peer2, rm_ToPeer = peer1,
       rm_CellEpoch = epoch_cur,
       rm_Message = \<lparr>msg_Type = MsgVote, msg_Snapshot = \<lparr>snap_Data = []\<rparr>\<rparr>\<rparr>"

section \<open>The message validator\<close>

lemma findPeer_None_iff:
  "findPeer c storeID = None \<longleftrightarrow> storeID \<notin> peer_StoreID ` set (cell_Peers c)"
  by (auto simp: findPeer_def find_None_iff)

text \<open>Lines 62-73 as one equation: with a live replica the source decides from
  the epoch comparison and from the lookup of the sender's store id in the
  replica's membership.\<close>

lemma isMsgStale_live_by_store:
  assumes "getPeerReplicate s (rm_CellID msg) = Some pr"
  shows "isMsgStale s msg =
     (if isEpochStale (rm_CellEpoch msg) (cell_Epoch (ps_cell (ps pr)))
         \<and> peer_StoreID (rm_FromPeer msg) \<in> peer_StoreID ` set (cell_Peers (ps_cell (ps pr)))
      then (Inr (True, None),
            handleStaleMsg s msg (cell_Epoch (ps_cell (ps pr)))
              (msg_Type (rm_Message msg) = MsgVote))
      else (Inr (False, None), s))"
  using assms
  by (simp add: isMsgStale_def getCell_def getStore_def findPeer_None_iff Let_def)




text \<open>The case b of the comment in the source (lines 48-49): member 2 was
  removed and asks for a vote with its old epoch. The comment wants the sender told
  to remove itself; the test of line 67 lets the message pass and runs no
  disposition.\<close>

lemma isMsgStale_removed_sender_passes:
  "getPeerReplicate store_removed7 (rm_CellID msg_vote) = Some replica_removed7
   \<and> isEpochStale (rm_CellEpoch msg_vote) (cell_Epoch cell7_tomb)
   \<and> peer_StoreID (rm_FromPeer msg_vote) \<notin> peer_StoreID ` set (cell_Peers cell7_tomb)
   \<and> isMsgStale store_removed7 msg_vote = (Inr (False, None), store_removed7)"
proof -
  have h: "getPeerReplicate store_removed7 (rm_CellID msg_vote) = Some replica_removed7"
    by (simp add: getPeerReplicate_def store_removed7_def store_empty_def msg_vote_def)
  have c: "ps_cell (ps replica_removed7) = cell7_tomb"
    by (simp add: replica_removed7_def)
  have stale: "isEpochStale (rm_CellEpoch msg_vote) (cell_Epoch cell7_tomb)"
    by (simp add: isEpochStale_def msg_vote_def cell7_tomb_def epoch_old_def epoch_cur_def)
  have absent: "peer_StoreID (rm_FromPeer msg_vote) \<notin> peer_StoreID ` set (cell_Peers cell7_tomb)"
    by (simp add: msg_vote_def cell7_tomb_def peer1_def peer2_def peer3_def)
  have "isMsgStale store_removed7 msg_vote = (Inr (False, None), store_removed7)"
    using absent by (simp add: isMsgStale_live_by_store [OF h] c)
  with h stale absent show ?thesis by blast
qed

text \<open>Claim C9. Neither \<^verbatim>\<open>isRaftMsgValid\<close> nor \<^verbatim>\<open>isMsgStale\<close> changes the
  Key-Range Index or the Pending-Shard Set, whatever they decide; the same holds
  for the code of \<^verbatim>\<open>isMsgStale\<close> that follows the load of the persisted
  state.\<close>

theorem validation_frame:
  "keyRanges (snd (isRaftMsgValid s msg)) = keyRanges s
   \<and> pendingCells (snd (isRaftMsgValid s msg)) = pendingCells s
   \<and> keyRanges (snd (isMsgStale s msg)) = keyRanges s
   \<and> pendingCells (snd (isMsgStale s msg)) = pendingCells s
   \<and> keyRanges (snd (isMsgStale_loaded s msg loaded)) = keyRanges s
   \<and> pendingCells (snd (isMsgStale_loaded s msg loaded)) = pendingCells s"
  by (simp add: isRaftMsgValid_def isMsgStale_def isMsgStale_loaded_def handleStaleMsg_def
      getCell_def getStore_def Let_def split: option.split sum.split)

text \<open>Claim C4. The claim asks that \<^verbatim>\<open>isMsgStale\<close> decides every envelope
  without reading through a nil replica handle. The source does the opposite:
  whenever no live replica is registered for the shard, line 76 reads
  \<^verbatim>\<open>peers.ps\<close> through the handle found to be nil, and the call panics
  instead of returning.\<close>

theorem isMsgStale_no_replica_panics:
  "getPeerReplicate s (rm_CellID msg) = None \<Longrightarrow>
     isMsgStale s msg = (Inl NilPointerDereference, s)"
  by (simp add: isMsgStale_def)

theorem isMsgStale_no_replica_panics_witness:
  "getPeerReplicate store_empty (rm_CellID msg_vote) = None
   \<and> isMsgStale store_empty msg_vote = (Inl NilPointerDereference, store_empty)"
proof -
  have h: "getPeerReplicate store_empty (rm_CellID msg_vote) = None"
    by (simp add: getPeerReplicate_def store_empty_def)
  show ?thesis using h isMsgStale_no_replica_panics [OF h] by simp
qed

text \<open>What lines 77-112 do with a load that found no record, and with a
  tombstone whose epoch is newer than the message's: the decisions the
  specification describes for these two cases.\<close>

lemma isMsgStale_loaded_no_record:
  "isMsgStale_loaded s msg (Inr None) = (Inr (False, None), s)"
  by (simp add: isMsgStale_loaded_def)

lemma isMsgStale_loaded_tombstone_stale:
  assumes "ls_State localState = Tombstone"
      and "isEpochStale (rm_CellEpoch msg) (cell_Epoch (ls_Cell localState))"
  shows "isMsgStale_loaded s msg (Inr (Some localState)) =
           (Inr (True, None),
            handleStaleMsg s msg (cell_Epoch (ls_Cell localState))
              (msg_Type (rm_Message msg) = MsgVote
               \<and> peer_StoreID (rm_FromPeer msg)
                    \<notin> peer_StoreID ` set (cell_Peers (ls_Cell localState))))"
  using assms by (simp add: isMsgStale_loaded_def findPeer_None_iff Let_def)

text \<open>Claim C3. The claim: with no live replica and no persisted record,
  \<^verbatim>\<open>isMsgStale\<close> returns (not stale, no error). On such an input the source
  does not get as far as the load: it panics at line 76.\<close>

theorem isMsgStale_no_record_panics:
  "getPeerReplicate store_empty (rm_CellID msg_appresp) = None
   \<and> engine store_empty (rm_CellID msg_appresp) = Inr None
   \<and> isMsgStale store_empty msg_appresp = (Inl NilPointerDereference, store_empty)"
  by (simp add: isMsgStale_def getPeerReplicate_def store_empty_def)

text \<open>Claim C5. The claim: a message for a tombstoned shard with an epoch
  older than the tombstone's is reported (stale, no error), with the notify flag
  set exactly for a vote request from a sender outside the tombstoned membership.
  On such an input (a vote request of removed member 2 for tombstoned shard 7) the
  source panics at line 76 and reports nothing.\<close>

theorem isMsgStale_tombstone_vote_panics:
  "getPeerReplicate store_tomb7 (rm_CellID msg_vote) = None
   \<and> engine store_tomb7 (rm_CellID msg_vote) = Inr (Some tomb7)
   \<and> ls_State tomb7 = Tombstone
   \<and> isEpochStale (rm_CellEpoch msg_vote) (cell_Epoch (ls_Cell tomb7))
   \<and> msg_Type (rm_Message msg_vote) = MsgVote
   \<and> peer_StoreID (rm_FromPeer msg_vote) \<notin> peer_StoreID ` set (cell_Peers (ls_Cell tomb7))
   \<and> isMsgStale store_tomb7 msg_vote = (Inl NilPointerDereference, store_tomb7)"
proof -
  have "getPeerReplicate store_tomb7 (rm_CellID msg_vote) = None"
    by (simp add: getPeerReplicate_def store_tomb7_def store_empty_def)
  moreover have "engine store_tomb7 (rm_CellID msg_vote) = Inr (Some tomb7)"
    by (simp add: store_tomb7_def msg_vote_def)
  moreover have "ls_State tomb7 = Tombstone"
    by (simp add: tomb7_def)
  moreover have "isEpochStale (rm_CellEpoch msg_vote) (cell_Epoch (ls_Cell tomb7))"
    by (simp add: isEpochStale_def msg_vote_def tomb7_def cell7_tomb_def
        epoch_old_def epoch_cur_def)
  moreover have "msg_Type (rm_Message msg_vote) = MsgVote"
    by (simp add: msg_vote_def)
  moreover have "peer_StoreID (rm_FromPeer msg_vote)
                   \<notin> peer_StoreID ` set (cell_Peers (ls_Cell tomb7))"
    by (simp add: msg_vote_def tomb7_def cell7_tomb_def peer1_def peer2_def peer3_def)
  moreover have "isMsgStale store_tomb7 msg_vote = (Inl NilPointerDereference, store_tomb7)"
    by (simp add: isMsgStale_def getPeerReplicate_def store_tomb7_def store_empty_def)
  ultimately show ?thesis by blast
qed

text \<open>\<^verbatim>\<open>isMsgStale\<close> as it stands returns no error on any input. Lines
  77-112, once the record is loaded, return the two errors of the specification:
  for a record that is not a tombstone, and for a tombstone whose configVersion
  equals that of a message that is not stale.\<close>

lemma isMsgStale_never_errors: "fst (isMsgStale s msg) \<noteq> Inr (b, Some e)"
  by (cases "getPeerReplicate s (rm_CellID msg)")
     (simp_all add: isMsgStale_def getCell_def getStore_def Let_def)

lemma isMsgStale_loaded_not_tombstone:
  "ls_State localState \<noteq> Tombstone \<Longrightarrow>
     isMsgStale_loaded s msg (Inr (Some localState))
       = (Inr (False, Some (ErrNotTombstone (rm_CellID msg) localState)), s)"
  by (simp add: isMsgStale_loaded_def)

lemma isMsgStale_loaded_epoch_collision:
  assumes "ls_State localState = Tombstone"
      and "\<not> isEpochStale (rm_CellEpoch msg) (cell_Epoch (ls_Cell localState))"
      and "ConfVer (rm_CellEpoch msg) = ConfVer (cell_Epoch (ls_Cell localState))"
  shows "isMsgStale_loaded s msg (Inr (Some localState))
           = (Inr (False, Some (ErrInvalidTombstoneMsg (cell_Epoch (ls_Cell localState)) msg)), s)"
  using assms by (simp add: isMsgStale_loaded_def Let_def)

text \<open>Claim C6. The claim: with no live replica, \<^verbatim>\<open>isMsgStale\<close> returns an
  error when (a) the persisted record is not a tombstone, or (b) it is a tombstone,
  the message epoch is not stale and the configVersions are equal. On an input of
  either kind the source panics at line 76 and returns no error.\<close>

theorem isMsgStale_error_cases_panic:
  "getPeerReplicate store_normal7 (rm_CellID msg_appresp) = None
   \<and> engine store_normal7 (rm_CellID msg_appresp) = Inr (Some normal7)
   \<and> ls_State normal7 \<noteq> Tombstone
   \<and> isMsgStale store_normal7 msg_appresp = (Inl NilPointerDereference, store_normal7)
   \<and> getPeerReplicate store_tomb7 (rm_CellID msg_collide) = None
   \<and> engine store_tomb7 (rm_CellID msg_collide) = Inr (Some tomb7)
   \<and> ls_State tomb7 = Tombstone
   \<and> \<not> isEpochStale (rm_CellEpoch msg_collide) (cell_Epoch (ls_Cell tomb7))
   \<and> ConfVer (rm_CellEpoch msg_collide) = ConfVer (cell_Epoch (ls_Cell tomb7))
   \<and> isMsgStale store_tomb7 msg_collide = (Inl NilPointerDereference, store_tomb7)"
proof -
  have "getPeerReplicate store_normal7 (rm_CellID msg_appresp) = None"
    by (simp add: getPeerReplicate_def store_normal7_def store_empty_def)
  moreover have "engine store_normal7 (rm_CellID msg_appresp) = Inr (Some normal7)"
    by (simp add: store_normal7_def msg_appresp_def)
  moreover have "ls_State normal7 \<noteq> Tombstone"
    by (simp add: normal7_def)
  moreover have "isMsgStale store_normal7 msg_appresp
                   = (Inl NilPointerDereference, store_normal7)"
    by (simp add: isMsgStale_def getPeerReplicate_def store_normal7_def store_empty_def)
  moreover have "getPeerReplicate store_tomb7 (rm_CellID msg_collide) = None"
    by (simp add: getPeerReplicate_def store_tomb7_def store_empty_def)
  moreover have "engine store_tomb7 (rm_CellID msg_collide) = Inr (Some tomb7)"
    by (simp add: store_tomb7_def msg_collide_def)
  moreover have "ls_State tomb7 = Tombstone"
    by (simp add: tomb7_def)
  moreover have "\<not> isEpochStale (rm_CellEpoch msg_collide) (cell_Epoch (ls_Cell tomb7))"
    by (simp add: isEpochStale_def msg_collide_def tomb7_def cell7_tomb_def epoch_cur_def)
  moreover have "ConfVer (rm_CellEpoch msg_collide) = ConfVer (cell_Epoch (ls_Cell tomb7))"
    by (simp add: msg_collide_def tomb7_def cell7_tomb_def)
  moreover have "isMsgStale store_tomb7 msg_collide = (Inl NilPointerDereference, store_tomb7)"
    by (simp add: isMsgStale_def getPeerReplicate_def store_tomb7_def store_empty_def)
  ultimately show ?thesis by blast
qed

section \<open>The search of the Key-Range Index\<close>




lemma greatestStartLE_None_iff:
  "greatestStartLE index key = None \<longleftrightarrow>
     (\<forall>c \<in> set index. 0 < bytes_Compare (cell_Start c) key)"
  by (induction index) (auto split: option.splits)



lemma live_overlapped_later_starts:
  assumes "\<forall>c \<in> set (keyRanges s). 0 < bytes_Compare (cell_Start c) (cell_Start snapCell)"
  shows "live_overlapped s snapCell = Inr False"
proof -
  have "greatestStartLE (keyRanges s) (cell_Start snapCell) = None"
    using assms by (simp add: greatestStartLE_None_iff)
  then show ?thesis
    by (simp add: live_overlapped_def Search_def emptyCell_def)
qed

section \<open>The snapshot admission controller\<close>

text \<open>The two loops of \<^verbatim>\<open>checkSnapshot\<close> as set-level tests; the comparison
  of encoded keys read from either side.\<close>

lemma found_peer_iff: "found_peer peers peerID \<longleftrightarrow> peerID \<in> peer_ID ` set peers"
  by (induction peers) auto

lemma bytes_Compare_flip: "0 < bytes_Compare a b \<longleftrightarrow> bytes_Compare b a < 0"
  by (induction a b rule: bytes_Compare.induct) auto

lemma enc_Compare_flip: "0 < enc_Compare a b \<longleftrightarrow> enc_Compare b a < 0"
  by (cases a; cases b) (simp_all add: bytes_Compare_flip)

lemma pending_overlapped_iff:
  "pending_overlapped cs snapCell \<longleftrightarrow>
     (\<exists>c \<in> set cs. spec_intersects c snapCell \<and> cell_ID c \<noteq> cell_ID snapCell)"
  by (induction cs) (auto simp: spec_intersects_def enc_Compare_flip)

text \<open>Claim C8. \<^verbatim>\<open>checkSnapshot\<close> returns an error exactly when the
  addressed replica's storage is uninitialized, the payload is non-empty and the
  payload fails to decode; the error is the decoder's, the verdict is false and the
  store is untouched. An initialized replica or an empty payload is accepted at
  once, whatever the decoder would say. A decoded descriptor whose membership lacks
  the target peer id is rejected without error.\<close>

theorem checkSnapshot_errors:
  "((\<exists>b e. fst (checkSnapshot Unmarshal s msg) = Inr (b, Some e)) \<longleftrightarrow>
      (\<exists>pr e. getPeerReplicate s (rm_CellID msg) = Some pr
         \<and> \<not> isInitialized (ps pr)
         \<and> snap_Data (msg_Snapshot (rm_Message msg)) \<noteq> []
         \<and> Unmarshal (snap_Data (msg_Snapshot (rm_Message msg))) = Inl e))
   \<and> (\<forall>b e. fst (checkSnapshot Unmarshal s msg) = Inr (b, Some e) \<longrightarrow>
         \<not> b \<and> Unmarshal (snap_Data (msg_Snapshot (rm_Message msg))) = Inl e
         \<and> snd (checkSnapshot Unmarshal s msg) = s)
   \<and> (\<forall>pr. getPeerReplicate s (rm_CellID msg) = Some pr
         \<and> (isInitialized (ps pr) \<or> snap_Data (msg_Snapshot (rm_Message msg)) = []) \<longrightarrow>
         checkSnapshot Unmarshal s msg = (Inr (True, None), s))
   \<and> (\<forall>pr snapData. getPeerReplicate s (rm_CellID msg) = Some pr
         \<and> \<not> isInitialized (ps pr)
         \<and> snap_Data (msg_Snapshot (rm_Message msg)) \<noteq> []
         \<and> Unmarshal (snap_Data (msg_Snapshot (rm_Message msg))) = Inr snapData
         \<and> peer_ID (rm_ToPeer msg) \<notin> peer_ID ` set (cell_Peers (sd_Cell snapData)) \<longrightarrow>
         checkSnapshot Unmarshal s msg = (Inr (False, None), s))"
proof (intro conjI)
  show "(\<exists>b e. fst (checkSnapshot Unmarshal s msg) = Inr (b, Some e)) \<longleftrightarrow>
      (\<exists>pr e. getPeerReplicate s (rm_CellID msg) = Some pr
         \<and> \<not> isInitialized (ps pr)
         \<and> snap_Data (msg_Snapshot (rm_Message msg)) \<noteq> []
         \<and> Unmarshal (snap_Data (msg_Snapshot (rm_Message msg))) = Inl e)"
    by (cases "getPeerReplicate s (rm_CellID msg)")
       (auto simp: checkSnapshot_def getStore_def Let_def split: sum.splits bool.splits)
next
  show "\<forall>b e. fst (checkSnapshot Unmarshal s msg) = Inr (b, Some e) \<longrightarrow>
         \<not> b \<and> Unmarshal (snap_Data (msg_Snapshot (rm_Message msg))) = Inl e
         \<and> snd (checkSnapshot Unmarshal s msg) = s"
    by (cases "getPeerReplicate s (rm_CellID msg)")
       (auto simp: checkSnapshot_def getStore_def Let_def split: sum.splits bool.splits if_splits)
next
  show "\<forall>pr. getPeerReplicate s (rm_CellID msg) = Some pr
         \<and> (isInitialized (ps pr) \<or> snap_Data (msg_Snapshot (rm_Message msg)) = []) \<longrightarrow>
         checkSnapshot Unmarshal s msg = (Inr (True, None), s)"
    by (auto simp: checkSnapshot_def getStore_def Let_def)
next
  show "\<forall>pr snapData. getPeerReplicate s (rm_CellID msg) = Some pr
         \<and> \<not> isInitialized (ps pr)
         \<and> snap_Data (msg_Snapshot (rm_Message msg)) \<noteq> []
         \<and> Unmarshal (snap_Data (msg_Snapshot (rm_Message msg))) = Inr snapData
         \<and> peer_ID (rm_ToPeer msg) \<notin> peer_ID ` set (cell_Peers (sd_Cell snapData)) \<longrightarrow>
         checkSnapshot Unmarshal s msg = (Inr (False, None), s)"
    by (auto simp: checkSnapshot_def getStore_def Let_def found_peer_iff)
qed

theorem checkSnapshot_errors_witness:
  "getPeerReplicate store_pending (rm_CellID msg_snap) = Some replica_fresh
   \<and> \<not> isInitialized (ps replica_fresh)
   \<and> snap_Data (msg_Snapshot (rm_Message msg_snap)) \<noteq> []
   \<and> decode_fail (snap_Data (msg_Snapshot (rm_Message msg_snap)))
        = Inl (ErrCollaborator ''unmarshal'')
   \<and> (\<exists>b e. fst (checkSnapshot decode_fail store_pending msg_snap) = Inr (b, Some e))"
proof -
  have h1: "getPeerReplicate store_pending (rm_CellID msg_snap) = Some replica_fresh"
    by (simp add: getPeerReplicate_def store_pending_def store_empty_def msg_snap_def)
  have h2: "\<not> isInitialized (ps replica_fresh)"
    by (simp add: isInitialized_def replica_fresh_def)
  have h3: "snap_Data (msg_Snapshot (rm_Message msg_snap)) \<noteq> []"
    by (simp add: msg_snap_def)
  have h4: "decode_fail (snap_Data (msg_Snapshot (rm_Message msg_snap)))
        = Inl (ErrCollaborator ''unmarshal'')"
    by (simp add: decode_fail_def)
  from h1 h2 h3 h4
  have "\<exists>b e. fst (checkSnapshot decode_fail store_pending msg_snap) = Inr (b, Some e)"
    using checkSnapshot_errors [of decode_fail store_pending msg_snap] by blast
  with h1 h2 h3 h4 show ?thesis by blast
qed

text \<open>Claim C1. The claim: a snapshot that reaches the live-shard step is
  rejected silently exactly when some live shard intersects the incoming range; in
  particular shard \<open>[10,20)\<close> is rejected while a live shard owns \<open>[15,25)\<close>.
  On that very input the source admits the snapshot: the search from the incoming
  start key \<open>10\<close> finds no live shard starting at or below it, so the one
  candidate the source looks at is the sentinel, and the live shard that starts
  inside the incoming range is never compared.\<close>

theorem checkSnapshot_live_overlap_admitted:
  "cell_live \<in> set (keyRanges store_snap)
   \<and> spec_intersects cell_live snap_cell
   \<and> getPeerReplicate store_snap (rm_CellID msg_snap) = Some replica_fresh
   \<and> \<not> isInitialized (ps replica_fresh)
   \<and> snap_Data (msg_Snapshot (rm_Message msg_snap)) \<noteq> []
   \<and> decode_ok (snap_Data (msg_Snapshot (rm_Message msg_snap))) = Inr \<lparr>sd_Cell = snap_cell\<rparr>
   \<and> peer_ID (rm_ToPeer msg_snap) \<in> peer_ID ` set (cell_Peers snap_cell)
   \<and> Search (keyRanges store_snap) (cell_Start snap_cell) = emptyCell
   \<and> checkSnapshot decode_ok store_snap msg_snap
       = (Inr (True, None), store_snap\<lparr>pendingCells := [snap_cell]\<rparr>)"
proof -
  have k: "keyRanges store_snap = [cell_live]"
    by (simp add: store_snap_def)
  have p: "pendingCells store_snap = []"
    by (simp add: store_snap_def store_empty_def)
  have c1: "cell_live \<in> set (keyRanges store_snap)"
    by (simp add: k)
  have c2: "spec_intersects cell_live snap_cell"
    by (simp add: spec_intersects_def encStartKey_def encEndKey_def cell_live_def snap_cell_def)
  have c3: "getPeerReplicate store_snap (rm_CellID msg_snap) = Some replica_fresh"
    by (simp add: getPeerReplicate_def store_snap_def msg_snap_def)
  have c4: "\<not> isInitialized (ps replica_fresh)"
    by (simp add: isInitialized_def replica_fresh_def)
  have c5: "snap_Data (msg_Snapshot (rm_Message msg_snap)) \<noteq> []"
    by (simp add: msg_snap_def)
  have c6: "decode_ok (snap_Data (msg_Snapshot (rm_Message msg_snap))) = Inr \<lparr>sd_Cell = snap_cell\<rparr>"
    by (simp add: decode_ok_def)
  have c7: "peer_ID (rm_ToPeer msg_snap) \<in> peer_ID ` set (cell_Peers snap_cell)"
    by (simp add: msg_snap_def snap_cell_def peer_local_def)
  have c8: "Search (keyRanges store_snap) (cell_Start snap_cell) = emptyCell"
    by (simp add: k Search_def cell_live_def snap_cell_def)
  have lo: "live_overlapped store_snap snap_cell = Inr False"
    by (simp add: live_overlapped_def c8 emptyCell_def)
  have c9: "checkSnapshot decode_ok store_snap msg_snap
       = (Inr (True, None), store_snap\<lparr>pendingCells := [snap_cell]\<rparr>)"
    using c4 c5 c7
    by (simp add: checkSnapshot_def c3 c6 lo p getStore_def found_peer_iff)
  from c1 c2 c3 c4 c5 c6 c7 c8 c9 show ?thesis by blast
qed




text \<open>Claim C2, as amended. A snapshot that reaches the pending scan (storage
  uninitialized, payload non-empty and decoded, target peer among the members, live
  step passed) and whose every intersecting pending entry carries the incoming
  shardID is accepted. The incoming descriptor is appended to the pending list;
  the entries already there stay, so the list holds one more entry of that shardID
  than before.\<close>

theorem checkSnapshot_same_shard_appends:
  assumes "getPeerReplicate s (rm_CellID msg) = Some pr"
      and "\<not> isInitialized (ps pr)"
      and "snap_Data (msg_Snapshot (rm_Message msg)) \<noteq> []"
      and "Unmarshal (snap_Data (msg_Snapshot (rm_Message msg))) = Inr snapData"
      and "peer_ID (rm_ToPeer msg) \<in> peer_ID ` set (cell_Peers (sd_Cell snapData))"
      and "live_overlapped s (sd_Cell snapData) = Inr False"
      and "\<forall>c \<in> set (pendingCells s).
             spec_intersects c (sd_Cell snapData) \<longrightarrow> cell_ID c = cell_ID (sd_Cell snapData)"
  shows "checkSnapshot Unmarshal s msg
           = (Inr (True, None), s\<lparr>pendingCells := pendingCells s @ [sd_Cell snapData]\<rparr>)
         \<and> length (filter (\<lambda>c. cell_ID c = cell_ID (sd_Cell snapData))
                     (pendingCells (snd (checkSnapshot Unmarshal s msg))))
             = Suc (length (filter (\<lambda>c. cell_ID c = cell_ID (sd_Cell snapData))
                              (pendingCells s)))"
proof -
  have np: "\<not> pending_overlapped (pendingCells s) (sd_Cell snapData)"
    using assms(7) by (auto simp: pending_overlapped_iff)
  have res: "checkSnapshot Unmarshal s msg
           = (Inr (True, None), s\<lparr>pendingCells := pendingCells s @ [sd_Cell snapData]\<rparr>)"
    using assms(2,3,5) np
    by (simp add: checkSnapshot_def assms(1,4,6) getStore_def found_peer_iff)
  show ?thesis by (simp add: res)
qed

theorem checkSnapshot_same_shard_appends_witness:
  "getPeerReplicate store_pending (rm_CellID msg_snap) = Some replica_fresh
   \<and> \<not> isInitialized (ps replica_fresh)
   \<and> snap_Data (msg_Snapshot (rm_Message msg_snap)) \<noteq> []
   \<and> decode_ok (snap_Data (msg_Snapshot (rm_Message msg_snap))) = Inr \<lparr>sd_Cell = snap_cell\<rparr>
   \<and> peer_ID (rm_ToPeer msg_snap) \<in> peer_ID ` set (cell_Peers snap_cell)
   \<and> live_overlapped store_pending snap_cell = Inr False
   \<and> pendingCells store_pending = [snap_cell_prior]
   \<and> cell_ID snap_cell_prior = cell_ID snap_cell
   \<and> checkSnapshot decode_ok store_pending msg_snap
       = (Inr (True, None), store_pending\<lparr>pendingCells := pendingCells store_pending @ [snap_cell]\<rparr>)"
proof -
  have h1: "getPeerReplicate store_pending (rm_CellID msg_snap) = Some replica_fresh"
    by (simp add: getPeerReplicate_def store_pending_def store_empty_def msg_snap_def)
  have h2: "\<not> isInitialized (ps replica_fresh)"
    by (simp add: isInitialized_def replica_fresh_def)
  have h3: "snap_Data (msg_Snapshot (rm_Message msg_snap)) \<noteq> []"
    by (simp add: msg_snap_def)
  have h4: "decode_ok (snap_Data (msg_Snapshot (rm_Message msg_snap))) = Inr \<lparr>sd_Cell = snap_cell\<rparr>"
    by (simp add: decode_ok_def)
  have h5: "peer_ID (rm_ToPeer msg_snap) \<in> peer_ID ` set (cell_Peers (sd_Cell \<lparr>sd_Cell = snap_cell\<rparr>))"
    by (simp add: msg_snap_def snap_cell_def peer_local_def)
  have h6: "live_overlapped store_pending (sd_Cell \<lparr>sd_Cell = snap_cell\<rparr>) = Inr False"
    by (simp add: live_overlapped_def Search_def emptyCell_def store_pending_def store_empty_def)
  have p: "pendingCells store_pending = [snap_cell_prior]"
    by (simp add: store_pending_def)
  have i: "cell_ID snap_cell_prior = cell_ID snap_cell"
    by (simp add: snap_cell_prior_def snap_cell_def)
  have h7: "\<forall>c \<in> set (pendingCells store_pending).
             spec_intersects c (sd_Cell \<lparr>sd_Cell = snap_cell\<rparr>)
               \<longrightarrow> cell_ID c = cell_ID (sd_Cell \<lparr>sd_Cell = snap_cell\<rparr>)"
    by (simp add: p i)
  have "checkSnapshot decode_ok store_pending msg_snap
       = (Inr (True, None), store_pending\<lparr>pendingCells := pendingCells store_pending @ [snap_cell]\<rparr>)"
    using checkSnapshot_same_shard_appends
      [where Unmarshal = decode_ok and s = store_pending and msg = msg_snap, OF h1 h2 h3 h4 h5 h6 h7]
    by simp
  with h1 h2 h3 h4 h5 h6 p i show ?thesis by simp
qed

text \<open>Claim C2 as stated fails: the second snapshot for shard 2 is accepted, but
  it does not replace the pending entry of shard 2. Afterwards the list holds both
  descriptors, two entries for one shardID.\<close>

theorem checkSnapshot_replaces_counterexample:
  "pendingCells store_pending = [snap_cell_prior]
   \<and> cell_ID snap_cell_prior = cell_ID snap_cell
   \<and> cell_Start snap_cell_prior = cell_Start snap_cell
   \<and> cell_End snap_cell_prior = cell_End snap_cell
   \<and> fst (checkSnapshot decode_ok store_pending msg_snap) = Inr (True, None)
   \<and> pendingCells (snd (checkSnapshot decode_ok store_pending msg_snap))
       = [snap_cell_prior, snap_cell]
   \<and> length (filter (\<lambda>c. cell_ID c = cell_ID snap_cell)
        (pendingCells (snd (checkSnapshot decode_ok store_pending msg_snap)))) = 2"
proof -
  have p: "pendingCells store_pending = [snap_cell_prior]"
    by (simp add: store_pending_def)
  have i: "cell_ID snap_cell_prior = cell_ID snap_cell"
    by (simp add: snap_cell_prior_def snap_cell_def)
  have st: "cell_Start snap_cell_prior = cell_Start snap_cell"
    by (simp add: snap_cell_prior_def snap_cell_def)
  have en: "cell_End snap_cell_prior = cell_End snap_cell"
    by (simp add: snap_cell_prior_def snap_cell_def)
  have r: "getPeerReplicate store_pending (rm_CellID msg_snap) = Some replica_fresh"
    by (simp add: getPeerReplicate_def store_pending_def store_empty_def msg_snap_def)
  have ni: "\<not> isInitialized (ps replica_fresh)"
    by (simp add: isInitialized_def replica_fresh_def)
  have d: "snap_Data (msg_Snapshot (rm_Message msg_snap)) \<noteq> []"
    by (simp add: msg_snap_def)
  have f: "found_peer (cell_Peers snap_cell) (peer_ID (rm_ToPeer msg_snap))"
    by (simp add: msg_snap_def snap_cell_def peer_local_def peer2_def)
  have lo: "live_overlapped store_pending snap_cell = Inr False"
    by (simp add: live_overlapped_def Search_def emptyCell_def store_pending_def store_empty_def)
  have po: "\<not> pending_overlapped [snap_cell_prior] snap_cell"
    by (simp add: i)
  have res: "checkSnapshot decode_ok store_pending msg_snap
       = (Inr (True, None), store_pending\<lparr>pendingCells := [snap_cell_prior, snap_cell]\<rparr>)"
    using ni d f po
    by (simp add: checkSnapshot_def r decode_ok_def lo p getStore_def)
  show ?thesis by (simp add: res p i st en)
qed

end
